theory Spec2Isabelle
  imports Main "HOL-Library.Word"
begin

section \<open>The twocaptcha client: data\<close>

text \<open>
  The package is one Go file, \<^verbatim>\<open>twocaptcha.go\<close>. An \<^verbatim>\<open>error\<close> of the source is always
  made by \<^verbatim>\<open>errors.New\<close> from a message, so an error is modelled by its message, and Go's
  \<^verbatim>\<open>nil\<close> error by \<open>None\<close> of \<open>error option\<close>.
\<close>

datatype error = Error string

definition validTypes :: "string list" where
  "validTypes = [''recaptchaV2'', ''recaptchaV3'', ''funcaptcha'']"

definition validV3Scores :: "string list" where
  "validV3Scores = [''.1'', ''.3'', ''.9'']"

definition capRequestURL :: string where
  "capRequestURL = ''https://2captcha.com/in.php?json=1''"

definition capResultURL :: string where
  "capResultURL = ''https://2captcha.com/res.php?json=1''"

text \<open>
  \<^verbatim>\<open>captchaErrors\<close> is a Go map literal; its keys are pairwise distinct, so the order in
  which \<^verbatim>\<open>range\<close> visits them cannot be observed. The entries are listed in source order.
  (The first entry of the source lacks its trailing comma; the entry is kept.)
\<close>

definition captchaErrors :: "(string \<times> error) list" where
  "captchaErrors =
    [(''CAPCHA_NOT_READY'', Error ''handled by program''),
     (''ERROR_NO_SLOT_AVAILABLE'', Error ''handled by program''),
     (''ERROR_WRONG_USER_KEY'', Error ''invalidly formatted api key''),
     (''ERROR_KEY_DOES_NOT_EXIST'', Error ''invalid api key''),
     (''ERROR_ZERO_BALANCE'', Error ''[in] empty account balance''),
     (''IP_BANNED'', Error ''[in] ip banned, contact 2captcha''),
     (''ERROR_BAD_TOKEN_OR_PAGEURL'', Error ''[in] recapv2 invalid token/pageurl''),
     (''ERROR_GOOGLEKEY'', Error ''[in] recapv2 invalid sitekey''),
     (''MAX_USER_TURN'', Error ''[in] too many requests, temp 10s ban''),
     (''CAPTCHA_NOT_READY'', Error ''[res] captcha not ready''),
     (''ERROR_CAPTCHA_UNSOLVABLE'', Error ''[res] unsolvable captcha''),
     (''ERROR_WRONG_ID_FORMAT'', Error ''[res] invalidly formatted captcha id''),
     (''ERROR_WRONG_CAPTCHA_ID'', Error ''[res] invalid captcha id''),
     (''ERROR_BAD_DUPLICATES'', Error ''[res] not enough matches''),
     (''ERROR_EMPTY_ACTION'', Error ''[res] action not found'')]"

text \<open>\<^verbatim>\<open>&fasthttp.Client{}\<close>; a \<^verbatim>\<open>nil\<close> pointer is \<open>None\<close>.\<close>

datatype httpClient = Client

record CaptchaInstance =
  APIKey :: string
  CaptchaType :: string
  CreateTaskURL :: string
  SettingInfo :: "string \<rightharpoonup> string"
  HTTPClient :: "httpClient option"

text \<open>The zero value of the struct. A \<^verbatim>\<open>nil\<close> map reads as the empty map.\<close>

definition zeroInstance :: CaptchaInstance where
  "zeroInstance =
     \<lparr>APIKey = [], CaptchaType = [], CreateTaskURL = [], SettingInfo = Map.empty,
      HTTPClient = None\<rparr>"

record captchaResponse =
  Status :: int
  Response :: string

definition zeroResponse :: captchaResponse where
  "zeroResponse = \<lparr>Status = 0, Response = []\<rparr>"

section \<open>Helpers of the source\<close>

text \<open>Reading a Go map at a missing key gives the zero value, here the empty string.\<close>

definition mapIndex :: "(string \<rightharpoonup> string) \<Rightarrow> string \<Rightarrow> string" where
  "mapIndex m k = (case m k of None \<Rightarrow> [] | Some v \<Rightarrow> v)"

definition keyInMap :: "(string \<rightharpoonup> string) \<Rightarrow> string \<Rightarrow> bool" where
  "keyInMap inputMap key = (case inputMap key of None \<Rightarrow> False | Some _ \<Rightarrow> True)"

fun stringInSlice :: "string list \<Rightarrow> string \<Rightarrow> bool" where
  "stringInSlice [] key = False"
| "stringInSlice (item # rest) key = (if key = item then True else stringInSlice rest key)"

text \<open>The loop of \<^verbatim>\<open>checkError\<close> over the entries of \<^verbatim>\<open>captchaErrors\<close>.\<close>

fun rangeErrors :: "(string \<times> error) list \<Rightarrow> string \<Rightarrow> string \<times> error option" where
  "rangeErrors [] r = ([], None)"
| "rangeErrors ((key, val) # rest) r =
     (if r = key then (key, Some val) else rangeErrors rest r)"

definition checkError :: "captchaResponse \<Rightarrow> string \<times> error option" where
  "checkError responseStruct =
     (if Status responseStruct = 0
      then rangeErrors captchaErrors (Response responseStruct)
      else ([], None))"

section \<open>The transport and the response bodies\<close>

text \<open>
  The network and \<^verbatim>\<open>encoding/json\<close> are outside the package. A response body is modelled
  by what \<^verbatim>\<open>json.Unmarshal\<close> does with it on a \<^verbatim>\<open>captchaResponse\<close>: it fails
  (\<open>Malformed\<close>: not JSON, truncated, or a field of the wrong type), or it succeeds and
  stores the fields that the object has, leaving the others of the target as they are.
\<close>

datatype body = Malformed | Object "int option" "string option"

fun Unmarshal :: "body \<Rightarrow> captchaResponse \<Rightarrow> captchaResponse option" where
  "Unmarshal Malformed target = None"
| "Unmarshal (Object st rq) target =
     Some \<lparr>Status = (case st of None \<Rightarrow> Status target | Some v \<Rightarrow> v),
           Response = (case rq of None \<Rightarrow> Response target | Some v \<Rightarrow> v)\<rparr>"

text \<open>
  What the outside world sees of a call: the requests sent and the sleeps, in order.
  A sleep carries its \<^verbatim>\<open>time.Duration\<close>, a signed 64-bit count of nanoseconds.
\<close>

datatype event = Get string | Sleep "64 word"

record 'n world =
  net :: 'n
  trace :: "event list"

type_synonym 'n transport = "'n \<Rightarrow> string \<Rightarrow> body \<times> 'n"

text \<open>
  \<^verbatim>\<open>httpClient.Do(request, response)\<close> for a GET of \<open>url\<close>: the transport answers from its
  state. The error that \<^verbatim>\<open>Do\<close> returns is dropped by the source at every call.
\<close>

definition clientDo :: "'n transport \<Rightarrow> string \<Rightarrow> 'n world \<Rightarrow> body \<times> 'n world" where
  "clientDo httpDo url w =
     (case httpDo (net w) url of
        (response, n') \<Rightarrow> (response, \<lparr>net = n', trace = trace w @ [Get url]\<rparr>))"

definition checkResponse :: "body \<Rightarrow> bool" where
  "checkResponse rawResponse = True"

definition unmarshalError :: error where
  "unmarshalError = Error ''error unmarshalling (this shouldn't happen)''"

text \<open>
  The request loop \<^verbatim>\<open>for retryRequest := true; retryRequest; { ... }\<close>, which the source
  has three times (balance, task creation, solution), differing in the URL and in the
  struct that is filled. \<open>Inl\<close> is \<^verbatim>\<open>break OuterLoop\<close> with \<^verbatim>\<open>finalErr\<close> set.
\<close>

partial_function (option) requestLoop ::
  "'n transport \<Rightarrow> string \<Rightarrow> captchaResponse \<Rightarrow> 'n world \<Rightarrow>
     ((error + captchaResponse) \<times> 'n world) option" where
  "requestLoop httpDo url target w =
     (case clientDo httpDo url w of
        (response, w') \<Rightarrow>
          if checkResponse response then
            (case Unmarshal response target of
               None \<Rightarrow> Some (Inl unmarshalError, w')
             | Some filled \<Rightarrow> Some (Inr filled, w'))
          else requestLoop httpDo url target w')"

section \<open>NewInstance\<close>

text \<open>
  The first \<^verbatim>\<open>switch captchaType\<close>. \<open>Inl e\<close> is \<^verbatim>\<open>break OuterLoop\<close> with
  \<^verbatim>\<open>finalErr = e\<close>; \<open>Inr fe\<close> leaves the switch with \<^verbatim>\<open>finalErr = fe\<close>. The branch for an
  invalid score assigns \<^verbatim>\<open>finalErr\<close> and has no \<^verbatim>\<open>break\<close>.
\<close>

definition firstSwitch :: "string \<Rightarrow> (string \<rightharpoonup> string) \<Rightarrow> error + error option" where
  "firstSwitch captchaType captchaParams =
     (if captchaType = ''recaptchaV2'' then
        (if \<not> (keyInMap captchaParams ''sitekey'' \<and> keyInMap captchaParams ''siteurl'')
         then Inl (Error ''missing parameter(s) within captchaParams for recaptchaV2'')
         else Inr None)
      else if captchaType = ''recaptchaV3'' then
        (if \<not> (keyInMap captchaParams ''sitekey'' \<and> keyInMap captchaParams ''siteurl'' \<and>
                keyInMap captchaParams ''action'' \<and> keyInMap captchaParams ''minscore'')
         then Inl (Error ''missing parameter(s) within captchaParams for recaptchaV3'')
         else if \<not> stringInSlice validV3Scores (mapIndex captchaParams ''minscore'')
         then Inr (Some (Error ''invalid recaptchaV3 score (.1/.3/.9)''))
         else Inr None)
      else if captchaType = ''funcaptcha'' then
        (if \<not> (keyInMap captchaParams ''key'' \<and> keyInMap captchaParams ''surl'' \<and>
                keyInMap captchaParams ''siteurl'')
         then Inl (Error ''missing parameter(s) within captchaParams for funcaptcha'')
         else Inr None)
      else Inl (Error ''invalid captcha type (this shouldn't happen)''))"

text \<open>
  The second switch, on \<^verbatim>\<open>instance.CaptchaType\<close>; its cases append to \<^verbatim>\<open>requestURL\<close>.
  \<open>Inr\<close> is the new \<^verbatim>\<open>requestURL\<close>, \<open>Inl\<close> the \<^verbatim>\<open>default\<close> case.
\<close>

definition secondSwitch :: "string \<Rightarrow> (string \<rightharpoonup> string) \<Rightarrow> string \<Rightarrow> error + string" where
  "secondSwitch instanceCaptchaType captchaParams requestURL =
     (if instanceCaptchaType = ''recaptchaV2'' then
        Inr (requestURL @ ''method=userrecaptcha&googlekey='' @ mapIndex captchaParams ''sitekey''
             @ ''&pageurl='' @ mapIndex captchaParams ''siteurl'')
      else if instanceCaptchaType = ''recaptchaV3'' then
        Inr (requestURL @ ''method=userrecaptcha&version=v3&googlekey=''
             @ mapIndex captchaParams ''sitekey''
             @ ''&pageurl='' @ mapIndex captchaParams ''siteurl''
             @ ''&action='' @ mapIndex captchaParams ''action''
             @ ''&min_score='' @ mapIndex captchaParams ''minScore'')
      else if instanceCaptchaType = ''funcaptcha'' then
        Inr (requestURL @ ''method=funcaptcha&publickey='' @ mapIndex captchaParams ''sitekey''
             @ ''&surl='' @ mapIndex captchaParams ''surl''
             @ ''&pageurl='' @ mapIndex captchaParams ''siteurl'')
      else Inl (Error ''invalid captcha type (this shouldn't happen!)''))"

text \<open>
  \<^verbatim>\<open>NewInstance\<close>. The named result \<^verbatim>\<open>instance\<close> starts as the zero value and is assigned
  only in the last five statements of the loop body. The result is the pair that the
  function returns and the world after the call; \<open>None\<close> would be a call that never
  returns.
\<close>

definition NewInstance ::
  "'n transport \<Rightarrow> string \<Rightarrow> string \<Rightarrow> (string \<rightharpoonup> string) \<Rightarrow> (string \<rightharpoonup> string) \<Rightarrow> 'n world \<Rightarrow>
     ((CaptchaInstance \<times> error option) \<times> 'n world) option" where
  "NewInstance httpDo apiKey captchaType captchaParams settingParams w =
     (let instance = zeroInstance in
      if \<not> keyInMap settingParams ''timeBetweenReqs''
      then Some ((instance, Some (Error ''missing parameter(s) within settingParams'')), w)
      else if \<not> stringInSlice validTypes captchaType
      then Some ((instance, Some (Error ''invalid captcha type'')), w)
      else
        (case firstSwitch captchaType captchaParams of
           Inl e \<Rightarrow> Some ((instance, Some e), w)
         | Inr finalErr \<Rightarrow>
             (let httpClient = Client;
                  requestURL = capResultURL @ ''&action=getBalance&key='' @ apiKey
              in Option.bind (requestLoop httpDo requestURL zeroResponse w)
                   (\<lambda>(r, w').
                      case r of
                        Inl e \<Rightarrow> Some ((instance, Some e), w')
                      | Inr balanceStruct \<Rightarrow>
                          (case snd (checkError balanceStruct) of
                             Some err \<Rightarrow> Some ((instance, Some err), w')
                           | None \<Rightarrow>
                               (let createTaskURL = capRequestURL @ ''&key='' @ APIKey instance
                                in case secondSwitch (CaptchaType instance) captchaParams requestURL of
                                     Inl e \<Rightarrow> Some ((instance, Some e), w')
                                   | Inr requestURL' \<Rightarrow>
                                       Some ((instance
                                               \<lparr>APIKey := apiKey,
                                                CaptchaType := captchaType,
                                                CreateTaskURL := createTaskURL,
                                                SettingInfo := settingParams,
                                                HTTPClient := Some httpClient\<rparr>,
                                              finalErr), w')))))))"

section \<open>SolveCaptcha\<close>

text \<open>
  \<^verbatim>\<open>strconv.Atoi\<close> of Go's library on a 64-bit platform, with \<^verbatim>\<open>ParseInt\<close> and
  \<^verbatim>\<open>ParseUint\<close> as it calls them (base 10, 64 bits). The second component of the result
  of \<open>Atoi\<close> tells whether the returned error is \<^verbatim>\<open>nil\<close>.
\<close>

definition isDigit :: "char \<Rightarrow> bool" where
  "isDigit ch = (48 \<le> (of_char ch :: nat) \<and> (of_char ch :: nat) \<le> 57)"

text \<open>
  The loop of the fast path, \<^verbatim>\<open>ch -= '0'; if ch > 9 { syntax error }; n = n*10 + int(ch)\<close>:
  \<open>None\<close> is the syntax error. The path is taken for at most 18 bytes, so \<^verbatim>\<open>n\<close> stays
  in the range of \<^verbatim>\<open>int\<close>.
\<close>

fun parseDigits :: "string \<Rightarrow> nat \<Rightarrow> nat option" where
  "parseDigits [] n = Some n"
| "parseDigits (ch # rest) n =
     (if isDigit ch then parseDigits rest (n * 10 + (of_char ch - 48)) else None)"

datatype numError = ErrSyntax | ErrRange

text \<open>
  The loop of \<^verbatim>\<open>ParseUint\<close>. For each byte, first the syntax (in base 10 a letter is a
  digit that is too large, an underscore is not allowed), then the two overflow checks:
  \<^verbatim>\<open>n >= cutoff\<close> with \<^verbatim>\<open>cutoff = maxUint64/10 + 1\<close>, and \<^verbatim>\<open>n*10 + d\<close> beyond
  \<^verbatim>\<open>maxUint64\<close>. The loop returns at the first check that fails and does not read the
  bytes after it.
\<close>

fun parseUintLoop :: "string \<Rightarrow> nat \<Rightarrow> numError + nat" where
  "parseUintLoop [] n = Inr n"
| "parseUintLoop (c # rest) n =
     (if \<not> isDigit c then Inl ErrSyntax
      else if 1844674407370955162 \<le> n then Inl ErrRange
      else if 18446744073709551615 < n * 10 + (of_char c - 48) then Inl ErrRange
      else parseUintLoop rest (n * 10 + (of_char c - 48)))"

definition ParseUint :: "string \<Rightarrow> nat \<times> numError option" where
  "ParseUint s =
     (if s = [] then (0, Some ErrSyntax)
      else case parseUintLoop s 0 of
             Inl ErrSyntax \<Rightarrow> (0, Some ErrSyntax)
           | Inl ErrRange \<Rightarrow> (18446744073709551615, Some ErrRange)
           | Inr n \<Rightarrow> (n, None))"

definition ParseInt :: "string \<Rightarrow> int \<times> numError option" where
  "ParseInt s =
     (if s = [] then (0, Some ErrSyntax)
      else
        (let neg = (hd s = CHR ''-'');
             s' = (if hd s = CHR ''+'' \<or> hd s = CHR ''-'' then tl s else s)
         in case ParseUint s' of
              (un, err) \<Rightarrow>
                if err = Some ErrSyntax then (0, err)
                else if \<not> neg \<and> 2 ^ 63 \<le> un then (2 ^ 63 - 1, Some ErrRange)
                else if neg \<and> 2 ^ 63 < un then (- (2 ^ 63), Some ErrRange)
                else (if neg then - int un else int un, None)))"

definition Atoi :: "string \<Rightarrow> int \<times> bool" where
  "Atoi s =
     (if 0 < length s \<and> length s < 19 then
        (let digits = (if hd s = CHR ''-'' \<or> hd s = CHR ''+'' then tl s else s)
         in if length digits < 1 then (0, False)
            else case parseDigits digits 0 of
                   None \<Rightarrow> (0, False)
                 | Some n \<Rightarrow> (if hd s = CHR ''-'' then - int n else int n, True))
      else case ParseInt s of (i64, err) \<Rightarrow> (i64, err = None))"

text \<open>
  \<^verbatim>\<open>secondsToSleep, _ := strconv.Atoi(instance.SettingInfo["timeBetweenReqs"])\<close> and
  \<^verbatim>\<open>timeToSleep := time.Second * time.Duration(secondsToSleep)\<close>, a product of \<^verbatim>\<open>int64\<close>.
\<close>

definition timeToSleepOf :: "CaptchaInstance \<Rightarrow> 64 word" where
  "timeToSleepOf instance =
     (let secondsToSleep = fst (Atoi (mapIndex (SettingInfo instance) ''timeBetweenReqs''))
      in 1000000000 * word_of_int secondsToSleep)"

definition timeSleep :: "64 word \<Rightarrow> 'n world \<Rightarrow> 'n world" where
  "timeSleep d w = w\<lparr>trace := trace w @ [Sleep d]\<rparr>"

text \<open>
  The source uses two names that it declares nowhere: \<^verbatim>\<open>taskStruct\<close> (filled by the
  task-creation request, read by both error checks) and, in the solution loop, \<^verbatim>\<open>errKey\<close>
  (the \<^verbatim>\<open>errKey\<close> of the task-creation check is out of scope there, and the solution
  check binds \<^verbatim>\<open>_\<close>). The model takes both as parameters: the value of \<^verbatim>\<open>taskStruct\<close>
  when the call starts, kept across the iterations of every loop, and the value of
  \<^verbatim>\<open>errKey\<close>, which the solution loop never assigns.

  In the results of the two inner loops \<open>Inl e\<close> is \<^verbatim>\<open>break OuterLoop\<close> with
  \<^verbatim>\<open>finalErr = e\<close>, and \<open>Inr\<close> is the \<^verbatim>\<open>break\<close> out of the loop itself.
\<close>

partial_function (option) createTaskLoop ::
  "'n transport \<Rightarrow> CaptchaInstance \<Rightarrow> 64 word \<Rightarrow> captchaResponse \<Rightarrow> 'n world \<Rightarrow>
     ((error + string \<times> captchaResponse) \<times> 'n world) option" where
  "createTaskLoop httpDo instance timeToSleep taskStruct w =
     Option.bind (requestLoop httpDo (CreateTaskURL instance) taskStruct w)
       (\<lambda>(r, w').
          case r of
            Inl e \<Rightarrow> Some (Inl e, w')
          | Inr taskStruct' \<Rightarrow>
              (case snd (checkError taskStruct') of
                 Some err \<Rightarrow>
                   if fst (checkError taskStruct') = ''ERROR_NO_SLOT_AVAILABLE''
                   then createTaskLoop httpDo instance timeToSleep taskStruct'
                          (timeSleep timeToSleep w')
                   else Some (Inl err, w')
               | None \<Rightarrow>
                   (let captchaTaskID = Response taskStruct';
                        checkSolutionURL =
                          capResultURL @ ''&key='' @ APIKey instance @ ''&action=get&id=''
                            @ captchaTaskID
                    in Some (Inr (checkSolutionURL, taskStruct'), w'))))"

partial_function (option) solutionLoop ::
  "'n transport \<Rightarrow> string \<Rightarrow> 64 word \<Rightarrow> captchaResponse \<Rightarrow> string \<Rightarrow> 'n world \<Rightarrow>
     ((error + string) \<times> 'n world) option" where
  "solutionLoop httpDo errKey timeToSleep taskStruct checkSolutionURL w =
     Option.bind (requestLoop httpDo checkSolutionURL zeroResponse w)
       (\<lambda>(r, w').
          case r of
            Inl e \<Rightarrow> Some (Inl e, w')
          | Inr solutionStruct \<Rightarrow>
              (case snd (checkError taskStruct) of
                 Some err \<Rightarrow>
                   if errKey = ''CAPCHA_NOT_READY''
                   then solutionLoop httpDo errKey timeToSleep taskStruct checkSolutionURL
                          (timeSleep timeToSleep w')
                   else Some (Inl err, w')
               | None \<Rightarrow> Some (Inr (Response solutionStruct), w')))"

text \<open>
  \<^verbatim>\<open>OuterLoop\<close>. After \<^verbatim>\<open>break SolutionLoop\<close> the body of \<^verbatim>\<open>OuterLoop\<close> is at its end
  and the \<^verbatim>\<open>for\<close> starts over: only \<^verbatim>\<open>break OuterLoop\<close> leaves it.
\<close>

partial_function (option) outerLoop ::
  "'n transport \<Rightarrow> string \<Rightarrow> CaptchaInstance \<Rightarrow> captchaResponse \<Rightarrow> string \<Rightarrow> 'n world \<Rightarrow>
     ((string \<times> error option) \<times> 'n world) option" where
  "outerLoop httpDo errKey instance taskStruct solution w =
     Option.bind (createTaskLoop httpDo instance (timeToSleepOf instance) taskStruct w)
       (\<lambda>(r, w').
          case r of
            Inl e \<Rightarrow> Some ((solution, Some e), w')
          | Inr (checkSolutionURL, taskStruct') \<Rightarrow>
              Option.bind
                (solutionLoop httpDo errKey (timeToSleepOf instance) taskStruct'
                   checkSolutionURL w')
                (\<lambda>(r', w'').
                   case r' of
                     Inl e \<Rightarrow> Some ((solution, Some e), w'')
                   | Inr solution' \<Rightarrow>
                       outerLoop httpDo errKey instance taskStruct' solution' w''))"

text \<open>
  \<^verbatim>\<open>SolveCaptcha\<close>. The first effect of the call is \<^verbatim>\<open>instance.HTTPClient.Do\<close> of the
  task-creation request, which panics on a \<^verbatim>\<open>nil\<close> client; the function never assigns
  the instance. \<open>None\<close> is a call that never returns.
\<close>

datatype 'a outcome = Panic | Return 'a

definition SolveCaptcha ::
  "'n transport \<Rightarrow> string \<Rightarrow> captchaResponse \<Rightarrow> CaptchaInstance \<Rightarrow> 'n world \<Rightarrow>
     ((string \<times> error option) outcome \<times> 'n world) option" where
  "SolveCaptcha httpDo errKey taskStruct instance w =
     (case HTTPClient instance of
        None \<Rightarrow> Some (Panic, w)
      | Some _ \<Rightarrow>
          map_option (\<lambda>(r, w'). (Return r, w'))
            (outerLoop httpDo errKey instance taskStruct [] w))"

section \<open>A mocked transport\<close>

text \<open>
  The mock holds two queues of bodies, one for the task-creation URL and one for every
  other URL (balance and solution requests). An empty queue answers with an empty body,
  which does not unmarshal.
\<close>

fun mockDo :: "string \<Rightarrow> (body list \<times> body list) transport" where
  "mockDo createURL (tasks, polls) url =
     (if url = createURL
      then (case tasks of [] \<Rightarrow> (Malformed, ([], polls)) | b # bs \<Rightarrow> (b, (bs, polls)))
      else (case polls of [] \<Rightarrow> (Malformed, (tasks, [])) | b # bs \<Rightarrow> (b, (tasks, bs))))"

text \<open>
  An instance as a caller builds it by hand for recaptcha-v2, with a poll interval of five
  seconds; its \<^verbatim>\<open>CreateTaskURL\<close> is the URL that the mock takes for task creation.
\<close>

definition exampleInstance :: CaptchaInstance where
  "exampleInstance =
     \<lparr>APIKey = ''KEY'', CaptchaType = ''recaptchaV2'',
      CreateTaskURL = ''https://2captcha.com/in.php?json=1&key=KEY&method=userrecaptcha&googlekey=SITE&pageurl=PAGE'',
      SettingInfo = [''timeBetweenReqs'' \<mapsto> ''5''],
      HTTPClient = Some Client\<rparr>"

section \<open>Notions of the specification\<close>

text \<open>
  The specification lists the keys that each variant requires in the parameter map
  (recaptcha-v2: site-key, site-url; recaptcha-v3: site-key, site-url, action, min-score;
  funcaptcha: key, surl, site-url), here under the names that the source gives them.
\<close>

definition specRequiredKeys :: "string \<Rightarrow> string list" where
  "specRequiredKeys variant =
     (if variant = ''recaptchaV2'' then [''sitekey'', ''siteurl'']
      else if variant = ''recaptchaV3'' then [''sitekey'', ''siteurl'', ''action'', ''minscore'']
      else if variant = ''funcaptcha'' then [''key'', ''surl'', ''siteurl'']
      else [])"

text \<open>
  The specification's condition on the poll interval: the setting parses, and to a number
  of seconds that is not negative.
\<close>

definition specParseableNonNegative :: "string \<Rightarrow> bool" where
  "specParseableNonNegative s = (case Atoi s of (n, ok) \<Rightarrow> ok \<and> 0 \<le> n)"

text \<open>
  The poll interval as the specification has it, a duration that is not negative: the
  setting is a decimal numeral, and its value is the number of seconds.
\<close>

definition specDigit :: "char \<Rightarrow> nat option" where
  "specDigit c = map_of (zip ''0123456789'' [0, 1, 2, 3, 4, 5, 6, 7, 8, 9]) c"

fun specDecimal :: "string \<Rightarrow> nat \<Rightarrow> nat option" where
  "specDecimal [] acc = Some acc"
| "specDecimal (c # cs) acc =
     (case specDigit c of None \<Rightarrow> None | Some d \<Rightarrow> specDecimal cs (10 * acc + d))"

definition specPollSeconds :: "string \<Rightarrow> nat option" where
  "specPollSeconds s = (if s = [] then None else specDecimal s 0)"

section \<open>Facts about the request loop and NewInstance\<close>

text \<open>\<^verbatim>\<open>checkResponse\<close> is always true, so the request loop sends one request and stops.\<close>

lemma requestLoop_once:
  "requestLoop httpDo url target w =
     Some (case Unmarshal (fst (httpDo (net w) url)) target of
             None \<Rightarrow> Inl unmarshalError | Some filled \<Rightarrow> Inr filled,
           \<lparr>net = snd (httpDo (net w) url), trace = trace w @ [Get url]\<rparr>)"
  by (subst requestLoop.simps)
     (simp add: clientDo_def checkResponse_def split: prod.splits option.splits)

text \<open>
  The second switch reads \<^verbatim>\<open>instance.CaptchaType\<close> before the instance is assigned, so it
  always takes its \<^verbatim>\<open>default\<close> case.
\<close>

lemma secondSwitch_zero:
  "secondSwitch (CaptchaType zeroInstance) captchaParams requestURL =
     Inl (Error ''invalid captcha type (this shouldn't happen!)'')"
  by (simp add: secondSwitch_def zeroInstance_def)

lemma NewInstance_no_setting:
  "\<not> keyInMap settingParams ''timeBetweenReqs'' \<Longrightarrow>
   NewInstance httpDo apiKey captchaType captchaParams settingParams w =
     Some ((zeroInstance, Some (Error ''missing parameter(s) within settingParams'')), w)"
  by (simp add: NewInstance_def)

lemma NewInstance_bad_type:
  "keyInMap settingParams ''timeBetweenReqs'' \<Longrightarrow> \<not> stringInSlice validTypes captchaType \<Longrightarrow>
   NewInstance httpDo apiKey captchaType captchaParams settingParams w =
     Some ((zeroInstance, Some (Error ''invalid captcha type'')), w)"
  by (simp add: NewInstance_def)

lemma NewInstance_switch_break:
  "keyInMap settingParams ''timeBetweenReqs'' \<Longrightarrow> stringInSlice validTypes captchaType \<Longrightarrow>
   firstSwitch captchaType captchaParams = Inl e \<Longrightarrow>
   NewInstance httpDo apiKey captchaType captchaParams settingParams w =
     Some ((zeroInstance, Some e), w)"
  by (simp add: NewInstance_def)

text \<open>
  Once the checks let the call through to the balance request, the result is decided by
  the one response: an unmarshalling error, the catalogue's error, or the error of the
  second switch.
\<close>

lemma NewInstance_balance:
  assumes "keyInMap settingParams ''timeBetweenReqs''"
    and "stringInSlice validTypes captchaType"
    and "firstSwitch captchaType captchaParams = Inr fe0"
  shows "NewInstance httpDo apiKey captchaType captchaParams settingParams w =
     Some ((zeroInstance,
            Some (case Unmarshal (fst (httpDo (net w)
                                    (capResultURL @ ''&action=getBalance&key='' @ apiKey)))
                         zeroResponse of
                    None \<Rightarrow> unmarshalError
                  | Some balanceStruct \<Rightarrow>
                      (case snd (checkError balanceStruct) of
                         Some err \<Rightarrow> err
                       | None \<Rightarrow> Error ''invalid captcha type (this shouldn't happen!)''))),
           \<lparr>net = snd (httpDo (net w) (capResultURL @ ''&action=getBalance&key='' @ apiKey)),
            trace = trace w @ [Get (capResultURL @ ''&action=getBalance&key='' @ apiKey)]\<rparr>)"
  using assms
  by (simp add: NewInstance_def Let_def requestLoop_once secondSwitch_zero
           split: option.splits)

text \<open>Every return of \<^verbatim>\<open>NewInstance\<close> carries the zero instance and an error.\<close>

lemma NewInstance_result:
  assumes "NewInstance httpDo apiKey captchaType captchaParams settingParams w =
             Some ((inst, fe), w')"
  shows "inst = zeroInstance \<and> fe \<noteq> None"
proof (cases "keyInMap settingParams ''timeBetweenReqs'' \<and> stringInSlice validTypes captchaType")
  case False
  with assms show ?thesis
    by (auto simp: NewInstance_def Let_def split: if_splits)
next
  case True
  show ?thesis
  proof (cases "firstSwitch captchaType captchaParams")
    case (Inl e)
    with True assms show ?thesis
      by (auto simp: NewInstance_switch_break)
  next
    case (Inr finalErr)
    with True assms show ?thesis
      by (auto simp: NewInstance_balance)
  qed
qed

text \<open>A variant's missing key stops the first switch with the message of that variant.\<close>

lemma firstSwitch_missing:
  assumes "stringInSlice validTypes captchaType"
    and "k \<in> set (specRequiredKeys captchaType)"
    and "\<not> keyInMap captchaParams k"
  shows "firstSwitch captchaType captchaParams =
           Inl (Error (''missing parameter(s) within captchaParams for '' @ captchaType))"
  using assms
  by (auto simp: validTypes_def specRequiredKeys_def firstSwitch_def split: if_splits)

text \<open>Only the first check produces the error for a missing setting.\<close>

lemma checkError_not_setting:
  "snd (checkError s) \<noteq> Some (Error ''missing parameter(s) within settingParams'')"
  by (simp add: checkError_def captchaErrors_def)

lemma firstSwitch_not_setting:
  "firstSwitch captchaType captchaParams \<noteq>
     Inl (Error ''missing parameter(s) within settingParams'')"
  by (simp add: firstSwitch_def)

lemma NewInstance_setting_error_iff:
  "\<exists>r. NewInstance httpDo apiKey captchaType captchaParams settingParams w = Some r \<and>
       (snd (fst r) = Some (Error ''missing parameter(s) within settingParams'')
          \<longleftrightarrow> \<not> keyInMap settingParams ''timeBetweenReqs'')"
proof (cases "keyInMap settingParams ''timeBetweenReqs''")
  case False
  then show ?thesis by (simp add: NewInstance_no_setting)
next
  case key: True
  show ?thesis
  proof (cases "stringInSlice validTypes captchaType")
    case False
    with key show ?thesis by (simp add: NewInstance_bad_type)
  next
    case ty: True
    show ?thesis
    proof (cases "firstSwitch captchaType captchaParams")
      case (Inl e)
      with key ty firstSwitch_not_setting [of captchaType captchaParams] show ?thesis
        by (simp add: NewInstance_switch_break)
    next
      case (Inr fe0)
      with key ty show ?thesis
        using checkError_not_setting
        by (auto simp: NewInstance_balance unmarshalError_def split: option.splits)
    qed
  qed
qed

text \<open>
  No return of \<^verbatim>\<open>NewInstance\<close> carries the error for an invalid score: the branch that
  assigns it does not leave the loop, and every later path assigns \<^verbatim>\<open>finalErr\<close> again.
\<close>

lemma checkError_not_score:
  "snd (checkError s) \<noteq> Some (Error ''invalid recaptchaV3 score (.1/.3/.9)'')"
  by (simp add: checkError_def captchaErrors_def)

lemma firstSwitch_not_score:
  "firstSwitch captchaType captchaParams \<noteq> Inl (Error ''invalid recaptchaV3 score (.1/.3/.9)'')"
  by (simp add: firstSwitch_def)

lemma NewInstance_never_invalid_score:
  assumes "NewInstance httpDo apiKey captchaType captchaParams settingParams w =
             Some ((inst, fe), w')"
  shows "fe \<noteq> Some (Error ''invalid recaptchaV3 score (.1/.3/.9)'')"
proof (cases "keyInMap settingParams ''timeBetweenReqs''")
  case False
  with assms show ?thesis by (auto simp: NewInstance_no_setting)
next
  case key: True
  show ?thesis
  proof (cases "stringInSlice validTypes captchaType")
    case False
    with key assms show ?thesis by (auto simp: NewInstance_bad_type)
  next
    case ty: True
    show ?thesis
    proof (cases "firstSwitch captchaType captchaParams")
      case (Inl e)
      with key ty assms firstSwitch_not_score [of captchaType captchaParams] show ?thesis
        by (auto simp: NewInstance_switch_break)
    next
      case (Inr fe0)
      with key ty assms show ?thesis
        using checkError_not_score
        by (auto simp: NewInstance_balance unmarshalError_def split: option.splits)
    qed
  qed
qed

section \<open>Facts about SolveCaptcha\<close>

text \<open>One turn of each inner loop, with the request loop unfolded.\<close>

lemma createTaskLoop_step:
  "createTaskLoop httpDo inst tts taskStruct w =
     (case Unmarshal (fst (httpDo (net w) (CreateTaskURL inst))) taskStruct of
        None \<Rightarrow>
          Some (Inl unmarshalError,
                \<lparr>net = snd (httpDo (net w) (CreateTaskURL inst)),
                 trace = trace w @ [Get (CreateTaskURL inst)]\<rparr>)
      | Some taskStruct' \<Rightarrow>
          (case snd (checkError taskStruct') of
             Some err \<Rightarrow>
               if fst (checkError taskStruct') = ''ERROR_NO_SLOT_AVAILABLE''
               then createTaskLoop httpDo inst tts taskStruct'
                      \<lparr>net = snd (httpDo (net w) (CreateTaskURL inst)),
                       trace = trace w @ [Get (CreateTaskURL inst), Sleep tts]\<rparr>
               else Some (Inl err,
                          \<lparr>net = snd (httpDo (net w) (CreateTaskURL inst)),
                           trace = trace w @ [Get (CreateTaskURL inst)]\<rparr>)
           | None \<Rightarrow>
               Some (Inr (capResultURL @ ''&key='' @ APIKey inst @ ''&action=get&id=''
                            @ Response taskStruct', taskStruct'),
                     \<lparr>net = snd (httpDo (net w) (CreateTaskURL inst)),
                      trace = trace w @ [Get (CreateTaskURL inst)]\<rparr>)))"
  by (subst createTaskLoop.simps)
     (simp add: requestLoop_once timeSleep_def Let_def split: option.splits)

lemma solutionLoop_step:
  "solutionLoop httpDo errKey tts taskStruct url w =
     (case Unmarshal (fst (httpDo (net w) url)) zeroResponse of
        None \<Rightarrow>
          Some (Inl unmarshalError,
                \<lparr>net = snd (httpDo (net w) url), trace = trace w @ [Get url]\<rparr>)
      | Some solutionStruct \<Rightarrow>
          (case snd (checkError taskStruct) of
             Some err \<Rightarrow>
               if errKey = ''CAPCHA_NOT_READY''
               then solutionLoop httpDo errKey tts taskStruct url
                      \<lparr>net = snd (httpDo (net w) url), trace = trace w @ [Get url, Sleep tts]\<rparr>
               else Some (Inl err,
                          \<lparr>net = snd (httpDo (net w) url), trace = trace w @ [Get url]\<rparr>)
           | None \<Rightarrow>
               Some (Inr (Response solutionStruct),
                     \<lparr>net = snd (httpDo (net w) url), trace = trace w @ [Get url]\<rparr>)))"
  by (subst solutionLoop.simps)
     (simp add: requestLoop_once timeSleep_def split: option.splits)

lemma createTaskLoop_malformed:
  "fst (httpDo (net w) (CreateTaskURL inst)) = Malformed \<Longrightarrow>
   createTaskLoop httpDo inst tts taskStruct w =
     Some (Inl unmarshalError,
           \<lparr>net = snd (httpDo (net w) (CreateTaskURL inst)),
            trace = trace w @ [Get (CreateTaskURL inst)]\<rparr>)"
  by (subst createTaskLoop_step) simp

lemma solutionLoop_malformed:
  "fst (httpDo (net w) url) = Malformed \<Longrightarrow>
   solutionLoop httpDo errKey tts taskStruct url w =
     Some (Inl unmarshalError,
           \<lparr>net = snd (httpDo (net w) url), trace = trace w @ [Get url]\<rparr>)"
  by (subst solutionLoop_step) simp

lemma outerLoop_step:
  "outerLoop httpDo errKey inst taskStruct solution w =
     (case createTaskLoop httpDo inst (timeToSleepOf inst) taskStruct w of
        None \<Rightarrow> None
      | Some (Inl e, w') \<Rightarrow> Some ((solution, Some e), w')
      | Some (Inr (checkSolutionURL, taskStruct'), w') \<Rightarrow>
          (case solutionLoop httpDo errKey (timeToSleepOf inst) taskStruct' checkSolutionURL w' of
             None \<Rightarrow> None
           | Some (Inl e, w'') \<Rightarrow> Some ((solution, Some e), w'')
           | Some (Inr solution', w'') \<Rightarrow>
               outerLoop httpDo errKey inst taskStruct' solution' w''))"
  by (subst outerLoop.simps)
     (simp split: option.splits sum.splits prod.splits bind_splits)

text \<open>
  \<^verbatim>\<open>OuterLoop\<close> is left only by \<^verbatim>\<open>break OuterLoop\<close>, which every site reaches with
  \<^verbatim>\<open>finalErr\<close> assigned: a call that returns, returns an error.
\<close>

lemma outerLoop_error:
  "outerLoop httpDo errKey inst taskStruct solution w = Some r \<Longrightarrow> snd (fst r) \<noteq> None"
proof (induction rule: outerLoop.raw_induct[rotated 1, consumes 1, case_names step])
  case (step outerLoop httpDo errKey inst taskStruct solution w r)
  from step(2) show ?case
    by (auto split: bind_split_asm sum.split_asm prod.split_asm dest: step(1))
qed

lemma SolveCaptcha_never_nil:
  "SolveCaptcha httpDo errKey taskStruct inst w = Some (Return (solution, fe), w') \<Longrightarrow>
     fe \<noteq> None"
  by (auto simp: SolveCaptcha_def split: option.splits dest: outerLoop_error)

text \<open>
  The task-creation loop leaves only with a \<^verbatim>\<open>taskStruct\<close> that passes \<^verbatim>\<open>checkError\<close>, and
  that is the struct which the solution loop checks again: there the check cannot fail,
  and the value of \<^verbatim>\<open>errKey\<close> is never looked at.
\<close>

lemma createTaskLoop_checked:
  "createTaskLoop httpDo inst tts taskStruct w = Some r \<Longrightarrow>
     (case fst r of Inl e \<Rightarrow> True | Inr (url, ts') \<Rightarrow> snd (checkError ts') = None)"
proof (induction rule: createTaskLoop.raw_induct[rotated 1, consumes 1, case_names step])
  case (step createTaskLoop httpDo inst timeToSleep taskStruct w r)
  from step(2) show ?case
    by (auto simp: Option.bind_eq_Some_conv Let_def requestLoop_once
             split: sum.splits prod.splits option.splits if_splits dest: step(1))
qed

lemma solutionLoop_checked:
  "snd (checkError taskStruct) = None \<Longrightarrow>
   solutionLoop httpDo errKey tts taskStruct url w =
     Some (case Unmarshal (fst (httpDo (net w) url)) zeroResponse of
             None \<Rightarrow> Inl unmarshalError
           | Some solutionStruct \<Rightarrow> Inr (Response solutionStruct),
           \<lparr>net = snd (httpDo (net w) url), trace = trace w @ [Get url]\<rparr>)"
  by (subst solutionLoop_step) (simp split: option.splits)

lemma rangeErrors_miss:
  "r \<notin> set (map fst entries) \<Longrightarrow> rangeErrors entries r = ([], None)"
  by (induction entries) auto

lemma checkError_ok: "Status s \<noteq> 0 \<Longrightarrow> checkError s = ([], None)"
  by (simp add: checkError_def)

lemma checkError_no_slot:
  "checkError \<lparr>Status = 0, Response = ''ERROR_NO_SLOT_AVAILABLE''\<rparr> =
     (''ERROR_NO_SLOT_AVAILABLE'', Some (Error ''handled by program''))"
  by (simp add: checkError_def captchaErrors_def)


text \<open>
  Where the setting is a decimal numeral of \<open>n\<close> seconds that fit a \<^verbatim>\<open>time.Duration\<close>,
  \<^verbatim>\<open>Atoi\<close> reads \<open>n\<close> on either of its paths, and \<^verbatim>\<open>timeToSleep\<close> is \<open>n\<close> seconds
  in nanoseconds, without wrap-around.
\<close>

lemma specDigit_Some:
  assumes "specDigit c = Some d"
  shows "isDigit c \<and> (of_char c :: nat) - 48 = d \<and> c \<noteq> CHR ''-'' \<and> c \<noteq> CHR ''+''"
  using assms by (auto simp: specDigit_def isDigit_def split: if_splits)

lemma specDecimal_ge: "specDecimal cs acc = Some v \<Longrightarrow> acc \<le> v"
proof (induction cs arbitrary: acc)
  case Nil
  then show ?case by simp
next
  case (Cons c cs)
  then obtain d where d: "specDigit c = Some d" and rest: "specDecimal cs (10 * acc + d) = Some v"
    by (auto split: option.splits)
  from Cons.IH [OF rest] show ?case by simp
qed

lemma parseDigits_spec: "specDecimal cs acc = Some v \<Longrightarrow> parseDigits cs acc = Some v"
proof (induction cs arbitrary: acc)
  case Nil
  then show ?case by simp
next
  case (Cons c cs)
  then obtain d where d: "specDigit c = Some d" and rest: "specDecimal cs (10 * acc + d) = Some v"
    by (auto split: option.splits)
  from specDigit_Some [OF d] Cons.IH [OF rest] show ?case
    by (simp add: mult.commute)
qed

lemma parseUintLoop_spec:
  "specDecimal cs acc = Some v \<Longrightarrow> v \<le> 18446744073709551615 \<Longrightarrow> parseUintLoop cs acc = Inr v"
proof (induction cs arbitrary: acc)
  case Nil
  then show ?case by simp
next
  case (Cons c cs)
  then obtain d where d: "specDigit c = Some d" and rest: "specDecimal cs (10 * acc + d) = Some v"
    by (auto split: option.splits)
  from specDecimal_ge [OF rest] Cons.prems(2) have bound: "10 * acc + d \<le> 18446744073709551615"
    by simp
  then have cut: "\<not> 1844674407370955162 \<le> acc"
    by simp
  from specDigit_Some [OF d] Cons.IH [OF rest Cons.prems(2)] bound cut show ?case
    by (simp add: mult.commute)
qed

lemma Atoi_spec:
  assumes "specPollSeconds s = Some n" and "n < 2 ^ 63"
  shows "Atoi s = (int n, True)"
proof -
  from assms(1) obtain c cs where s: "s = c # cs" and dec: "specDecimal s 0 = Some n"
    by (cases s) (auto simp: specPollSeconds_def split: if_splits)
  from dec s obtain d where d: "specDigit c = Some d"
    by (auto split: option.splits)
  from specDigit_Some [OF d] s have nosign: "hd s \<noteq> CHR ''-''" "hd s \<noteq> CHR ''+''"
    by simp_all
  from assms(2) have le: "n \<le> 18446744073709551615" by simp
  from s have ne: "s \<noteq> []" by simp
  show ?thesis
  proof (cases "length s < 19")
    case True
    with ne nosign parseDigits_spec [OF dec] show ?thesis
      by (simp add: Atoi_def)
  next
    case False
    with ne nosign parseUintLoop_spec [OF dec le] assms(2) show ?thesis
      by (simp add: Atoi_def ParseInt_def ParseUint_def)
  qed
qed

lemma timeToSleepOf_spec:
  assumes "specPollSeconds (mapIndex (SettingInfo inst) ''timeBetweenReqs'') = Some n"
    and "n * 1000000000 < 2 ^ 63"
  shows "timeToSleepOf inst = word_of_int (int n * 1000000000)"
    and "sint (word_of_int (int n * 1000000000) :: 64 word) = int n * 1000000000"
proof -
  from assms(2) have "n < 2 ^ 63" by simp
  from Atoi_spec [OF assms(1) this] show "timeToSleepOf inst = word_of_int (int n * 1000000000)"
    by (simp add: timeToSleepOf_def mult.commute)
  define x where "x = int n * 1000000000"
  from assms(2) have "int (n * 1000000000) < int (2 ^ 63)"
    by (simp only: of_nat_less_iff)
  then have x: "0 \<le> x" "x < 2 ^ 63"
    by (simp_all add: x_def)
  have "sint (word_of_int x :: 64 word) = (x + 2 ^ 63) mod 2 ^ 64 - 2 ^ 63"
    by (subst int_word_sint) simp
  also from x have "\<dots> = x"
    by (simp add: mod_pos_pos_trivial)
  finally show "sint (word_of_int (int n * 1000000000) :: 64 word) = int n * 1000000000"
    by (simp only: x_def)
qed


section \<open>Claims about NewInstance\<close>

text \<open>
  Claim C10. Whenever \<^verbatim>\<open>NewInstance\<close> returns an error that is not \<^verbatim>\<open>nil\<close>, the instance
  it returns is the zero value: none of \<^verbatim>\<open>APIKey\<close>, \<^verbatim>\<open>CaptchaType\<close>, \<^verbatim>\<open>CreateTaskURL\<close>,
  \<^verbatim>\<open>SettingInfo\<close> and \<^verbatim>\<open>HTTPClient\<close> has been populated.
\<close>

theorem C10_error_leaves_instance_zero:
  "NewInstance httpDo apiKey captchaType captchaParams settingParams w =
     Some ((inst, Some e), w') \<Longrightarrow>
   inst = zeroInstance \<and> APIKey inst = [] \<and> CaptchaType inst = [] \<and> CreateTaskURL inst = [] \<and>
   SettingInfo inst = Map.empty \<and> HTTPClient inst = None"
  by (auto dest: NewInstance_result simp: zeroInstance_def)

text \<open>
  The claim at a call whose balance request is answered with \<^verbatim>\<open>ERROR_ZERO_BALANCE\<close>.
\<close>

theorem C10_witness:
  "NewInstance (mockDo []) ''KEY'' ''recaptchaV2''
       [''sitekey'' \<mapsto> ''SITE'', ''siteurl'' \<mapsto> ''PAGE''] [''timeBetweenReqs'' \<mapsto> ''5'']
       \<lparr>net = ([], [Object (Some 0) (Some ''ERROR_ZERO_BALANCE'')]), trace = []\<rparr>
     = Some ((zeroInstance, Some (Error ''[in] empty account balance'')),
             \<lparr>net = ([], []),
              trace = [Get ''https://2captcha.com/res.php?json=1&action=getBalance&key=KEY'']\<rparr>)
   \<and> APIKey zeroInstance = [] \<and> CaptchaType zeroInstance = []
   \<and> CreateTaskURL zeroInstance = [] \<and> SettingInfo zeroInstance = Map.empty
   \<and> HTTPClient zeroInstance = None"
proof -
  have run:
    "NewInstance (mockDo []) ''KEY'' ''recaptchaV2''
       [''sitekey'' \<mapsto> ''SITE'', ''siteurl'' \<mapsto> ''PAGE''] [''timeBetweenReqs'' \<mapsto> ''5'']
       \<lparr>net = ([], [Object (Some 0) (Some ''ERROR_ZERO_BALANCE'')]), trace = []\<rparr>
     = Some ((zeroInstance, Some (Error ''[in] empty account balance'')),
             \<lparr>net = ([], []),
              trace = [Get ''https://2captcha.com/res.php?json=1&action=getBalance&key=KEY'']\<rparr>)"
    by (simp add: NewInstance_balance keyInMap_def validTypes_def firstSwitch_def
          capResultURL_def checkError_def captchaErrors_def)
  from C10_error_leaves_instance_zero [OF run] run show ?thesis
    by simp
qed

text \<open>
  Claim C1. For every valid construction input of the three variants, \<^verbatim>\<open>NewInstance\<close>
  returns a populated instance, whose task-creation URL holds the API key and every field
  of the variant once, and no error. The source does not do this: by
  \<open>NewInstance_result\<close> no call returns without an error. Here is the call for
  recaptcha-v2 with both keys, the poll interval, and a balance request that succeeds.
\<close>

theorem C1_valid_input_is_refused:
  "NewInstance (mockDo []) ''KEY'' ''recaptchaV2''
       [''sitekey'' \<mapsto> ''SITE'', ''siteurl'' \<mapsto> ''PAGE''] [''timeBetweenReqs'' \<mapsto> ''5'']
       \<lparr>net = ([], [Object (Some 1) (Some ''12.5'')]), trace = []\<rparr>
     = Some ((zeroInstance, Some (Error ''invalid captcha type (this shouldn't happen!)'')),
             \<lparr>net = ([], []),
              trace = [Get ''https://2captcha.com/res.php?json=1&action=getBalance&key=KEY'']\<rparr>)"
  by (simp add: NewInstance_balance keyInMap_def validTypes_def firstSwitch_def
        capResultURL_def checkError_def)

text \<open>
  Claim C4. For recaptcha-v3 with a min-score outside the allowed values, construction
  fails with the error for an invalid score, before any request is built and before any
  network call. The source assigns that error and goes on: the balance request is sent,
  and the error is replaced (\<open>NewInstance_never_invalid_score\<close>). Here is the call with
  all four keys and the score \<^verbatim>\<open>.5\<close>.
\<close>

theorem C4_invalid_score_is_overwritten:
  "firstSwitch ''recaptchaV3''
       [''sitekey'' \<mapsto> ''SITE'', ''siteurl'' \<mapsto> ''PAGE'', ''action'' \<mapsto> ''login'',
        ''minscore'' \<mapsto> ''.5'']
     = Inr (Some (Error ''invalid recaptchaV3 score (.1/.3/.9)''))
   \<and> NewInstance (mockDo []) ''KEY'' ''recaptchaV3''
       [''sitekey'' \<mapsto> ''SITE'', ''siteurl'' \<mapsto> ''PAGE'', ''action'' \<mapsto> ''login'',
        ''minscore'' \<mapsto> ''.5'']
       [''timeBetweenReqs'' \<mapsto> ''5'']
       \<lparr>net = ([], [Object (Some 1) (Some ''12.5'')]), trace = []\<rparr>
     = Some ((zeroInstance, Some (Error ''invalid captcha type (this shouldn't happen!)'')),
             \<lparr>net = ([], []),
              trace = [Get ''https://2captcha.com/res.php?json=1&action=getBalance&key=KEY'']\<rparr>)"
proof -
  have sw: "firstSwitch ''recaptchaV3''
       [''sitekey'' \<mapsto> ''SITE'', ''siteurl'' \<mapsto> ''PAGE'', ''action'' \<mapsto> ''login'',
        ''minscore'' \<mapsto> ''.5'']
     = Inr (Some (Error ''invalid recaptchaV3 score (.1/.3/.9)''))"
    by (simp add: firstSwitch_def keyInMap_def mapIndex_def validV3Scores_def)
  show ?thesis
    by (simp add: sw NewInstance_balance [OF _ _ sw] keyInMap_def validTypes_def
          capResultURL_def checkError_def)
qed

text \<open>
  Claim C6, as stated: for every supported variant, a call whose parameter map lacks a
  required key fails with the error for a missing variant parameter. It does not when
  the settings map lacks \<^verbatim>\<open>timeBetweenReqs\<close>, which the source checks first: the call
  below is for recaptcha-v2 without \<^verbatim>\<open>sitekey\<close>, and its error is the one for the
  settings.
\<close>

theorem C6_counterexample:
  "stringInSlice validTypes ''recaptchaV2'' \<and>
   ''sitekey'' \<in> set (specRequiredKeys ''recaptchaV2'') \<and>
   \<not> keyInMap Map.empty ''sitekey'' \<and>
   NewInstance (mockDo []) ''KEY'' ''recaptchaV2'' Map.empty Map.empty
      \<lparr>net = ([], []), trace = []\<rparr> =
     Some ((zeroInstance, Some (Error ''missing parameter(s) within settingParams'')),
           \<lparr>net = ([], []), trace = []\<rparr>) \<and>
   Error ''missing parameter(s) within settingParams'' \<noteq>
     Error (''missing parameter(s) within captchaParams for '' @ ''recaptchaV2'')"
  by (simp add: validTypes_def specRequiredKeys_def keyInMap_def NewInstance_def)

text \<open>
  Claim C6, amended: when the settings map has \<^verbatim>\<open>timeBetweenReqs\<close>, a call for a
  supported variant whose parameter map lacks one of the variant's required keys returns
  the zero instance and the error for a missing parameter of that variant, and the world
  is as before the call: no request was sent.
\<close>

theorem C6_missing_variant_parameter:
  assumes "keyInMap settingParams ''timeBetweenReqs''"
    and "stringInSlice validTypes captchaType"
    and "k \<in> set (specRequiredKeys captchaType)"
    and "\<not> keyInMap captchaParams k"
  shows "NewInstance httpDo apiKey captchaType captchaParams settingParams w =
           Some ((zeroInstance,
                  Some (Error (''missing parameter(s) within captchaParams for '' @ captchaType))),
                 w)"
  using assms by (simp add: NewInstance_switch_break firstSwitch_missing)

theorem C6_witness:
  "keyInMap [''timeBetweenReqs'' \<mapsto> ''5''] ''timeBetweenReqs'' \<and>
   stringInSlice validTypes ''funcaptcha'' \<and>
   ''key'' \<in> set (specRequiredKeys ''funcaptcha'') \<and>
   \<not> keyInMap [''surl'' \<mapsto> ''SURL'', ''siteurl'' \<mapsto> ''PAGE''] ''key'' \<and>
   NewInstance (mockDo []) ''KEY'' ''funcaptcha'' [''surl'' \<mapsto> ''SURL'', ''siteurl'' \<mapsto> ''PAGE'']
      [''timeBetweenReqs'' \<mapsto> ''5''] \<lparr>net = ([], []), trace = []\<rparr> =
     Some ((zeroInstance, Some (Error ''missing parameter(s) within captchaParams for funcaptcha'')),
           \<lparr>net = ([], []), trace = []\<rparr>)"
proof -
  have a: "keyInMap [''timeBetweenReqs'' \<mapsto> ''5''] ''timeBetweenReqs''"
    by (simp add: keyInMap_def)
  have b: "stringInSlice validTypes ''funcaptcha''"
    by (simp add: validTypes_def)
  have c: "''key'' \<in> set (specRequiredKeys ''funcaptcha'')"
    by (simp add: specRequiredKeys_def)
  have d: "\<not> keyInMap [''surl'' \<mapsto> ''SURL'', ''siteurl'' \<mapsto> ''PAGE''] ''key''"
    by (simp add: keyInMap_def)
  from C6_missing_variant_parameter
         [OF a b c d, of "mockDo []" "''KEY''" "\<lparr>net = ([], []), trace = []\<rparr>"] a b c d
  show ?thesis by simp
qed

text \<open>
  Claim C8, as stated: construction accepts the settings map only when the poll interval
  is present and parses as a duration that is not negative. The source looks for the key
  and never reads its value: with the setting \<^verbatim>\<open>soon\<close>, which does not parse, the call
  below passes every check and sends the balance request.
\<close>

theorem C8_counterexample:
  "\<not> specParseableNonNegative ''soon'' \<and>
   NewInstance (mockDo []) ''KEY'' ''recaptchaV2''
       [''sitekey'' \<mapsto> ''SITE'', ''siteurl'' \<mapsto> ''PAGE''] [''timeBetweenReqs'' \<mapsto> ''soon'']
       \<lparr>net = ([], [Object (Some 0) (Some ''ERROR_ZERO_BALANCE'')]), trace = []\<rparr>
     = Some ((zeroInstance, Some (Error ''[in] empty account balance'')),
             \<lparr>net = ([], []),
              trace = [Get ''https://2captcha.com/res.php?json=1&action=getBalance&key=KEY'']\<rparr>)"
  by (simp add: specParseableNonNegative_def Atoi_def isDigit_def
        NewInstance_balance keyInMap_def validTypes_def firstSwitch_def
        capResultURL_def checkError_def captchaErrors_def)

text \<open>
  Claim C8, amended: construction checks in order, each check with its own error. The
  call returns the error for a missing setting exactly when the settings map lacks the
  key \<^verbatim>\<open>timeBetweenReqs\<close> (the value of the key is not looked at), and then whatever the
  variant and the parameters are. With the key present, a variant outside the supported
  three gives the error for an invalid type, whatever the parameters are. With both
  checks passed, a missing required key gives the error of that variant. None of the
  three sends a request.
\<close>

theorem C8_validation_order:
  "(\<exists>r. NewInstance httpDo apiKey captchaType captchaParams settingParams w = Some r \<and>
        (snd (fst r) = Some (Error ''missing parameter(s) within settingParams'')
           \<longleftrightarrow> \<not> keyInMap settingParams ''timeBetweenReqs''))
   \<and> (\<not> keyInMap settingParams ''timeBetweenReqs'' \<longrightarrow>
        NewInstance httpDo apiKey captchaType captchaParams settingParams w =
          Some ((zeroInstance, Some (Error ''missing parameter(s) within settingParams'')), w))
   \<and> (keyInMap settingParams ''timeBetweenReqs'' \<and> \<not> stringInSlice validTypes captchaType \<longrightarrow>
        NewInstance httpDo apiKey captchaType captchaParams settingParams w =
          Some ((zeroInstance, Some (Error ''invalid captcha type'')), w))
   \<and> (keyInMap settingParams ''timeBetweenReqs'' \<and> stringInSlice validTypes captchaType \<and>
        k \<in> set (specRequiredKeys captchaType) \<and> \<not> keyInMap captchaParams k \<longrightarrow>
        NewInstance httpDo apiKey captchaType captchaParams settingParams w =
          Some ((zeroInstance,
                 Some (Error (''missing parameter(s) within captchaParams for '' @ captchaType))),
                w))"
proof (intro conjI impI)
  show "\<exists>r. NewInstance httpDo apiKey captchaType captchaParams settingParams w = Some r \<and>
        (snd (fst r) = Some (Error ''missing parameter(s) within settingParams'')
           \<longleftrightarrow> \<not> keyInMap settingParams ''timeBetweenReqs'')"
    by (rule NewInstance_setting_error_iff)
next
  assume "\<not> keyInMap settingParams ''timeBetweenReqs''"
  then show "NewInstance httpDo apiKey captchaType captchaParams settingParams w =
          Some ((zeroInstance, Some (Error ''missing parameter(s) within settingParams'')), w)"
    by (rule NewInstance_no_setting)
next
  assume "keyInMap settingParams ''timeBetweenReqs'' \<and> \<not> stringInSlice validTypes captchaType"
  then show "NewInstance httpDo apiKey captchaType captchaParams settingParams w =
          Some ((zeroInstance, Some (Error ''invalid captcha type'')), w)"
    by (simp add: NewInstance_bad_type)
next
  assume a: "keyInMap settingParams ''timeBetweenReqs'' \<and> stringInSlice validTypes captchaType \<and>
        k \<in> set (specRequiredKeys captchaType) \<and> \<not> keyInMap captchaParams k"
  then have sw: "firstSwitch captchaType captchaParams =
      Inl (Error (''missing parameter(s) within captchaParams for '' @ captchaType))"
    by (intro firstSwitch_missing [of captchaType k]) simp_all
  from a show "NewInstance httpDo apiKey captchaType captchaParams settingParams w =
          Some ((zeroInstance,
                 Some (Error (''missing parameter(s) within captchaParams for '' @ captchaType))),
                w)"
    by (simp add: NewInstance_switch_break [OF _ _ sw])
qed

text \<open>
  The case that the claim names: the setting is missing and the variant is not a
  supported one; the error is the one for the setting.
\<close>

theorem C8_witness:
  "\<not> keyInMap Map.empty ''timeBetweenReqs'' \<and> \<not> stringInSlice validTypes ''hcaptcha'' \<and>
   NewInstance (mockDo []) ''KEY'' ''hcaptcha'' Map.empty Map.empty \<lparr>net = ([], []), trace = []\<rparr> =
     Some ((zeroInstance, Some (Error ''missing parameter(s) within settingParams'')),
           \<lparr>net = ([], []), trace = []\<rparr>)"
  using C8_validation_order [of "mockDo []" "''KEY''" "''hcaptcha''" Map.empty Map.empty
                       "\<lparr>net = ([], []), trace = []\<rparr>" "''sitekey''"]
  by (simp add: keyInMap_def validTypes_def)

section \<open>Claims about SolveCaptcha\<close>

text \<open>
  Claim C5, as stated: for every configured instance, if the task-creation endpoint
  answers \<^verbatim>\<open>{"status":0,"request":"ERROR_NO_SLOT_AVAILABLE"}\<close> once and then
  \<^verbatim>\<open>{"status":1,"request":"abc123"}\<close>, \<^verbatim>\<open>SolveCaptcha\<close> sleeps one poll interval, once,
  before it asks for the task again. The sleep is \<^verbatim>\<open>time.Second\<close> times the setting in
  64-bit arithmetic, which wraps: with an interval of 36028797018963970 seconds
  (\<open>2 ^ 55 + 2\<close>) the call below sleeps two seconds.
\<close>

theorem C5_counterexample:
  "SettingInfo (exampleInstance\<lparr>SettingInfo := [''timeBetweenReqs'' \<mapsto> ''36028797018963970'']\<rparr>)
       ''timeBetweenReqs'' = Some ''36028797018963970''
   \<and> specPollSeconds ''36028797018963970'' = Some 36028797018963970
   \<and> SolveCaptcha (mockDo (CreateTaskURL exampleInstance)) [] zeroResponse
       (exampleInstance\<lparr>SettingInfo := [''timeBetweenReqs'' \<mapsto> ''36028797018963970'']\<rparr>)
       \<lparr>net = ([Object (Some 0) (Some ''ERROR_NO_SLOT_AVAILABLE''),
                Object (Some 1) (Some ''abc123'')], []), trace = []\<rparr>
     = Some (Return ([], Some unmarshalError),
             \<lparr>net = ([], []),
              trace = [Get (CreateTaskURL exampleInstance), Sleep 2000000000,
                       Get (CreateTaskURL exampleInstance),
                       Get ''https://2captcha.com/res.php?json=1&key=KEY&action=get&id=abc123'']\<rparr>)
   \<and> sint (2000000000 :: 64 word) = 2 * 1000000000
   \<and> sint (2000000000 :: 64 word) \<noteq> 36028797018963970 * 1000000000"
proof -
  define big where
    "big = exampleInstance\<lparr>SettingInfo := [''timeBetweenReqs'' \<mapsto> ''36028797018963970'']\<rparr>"
  have tts: "timeToSleepOf big = 2000000000"
    by (simp add: big_def timeToSleepOf_def mapIndex_def Atoi_def isDigit_def)
  have url: "CreateTaskURL big = CreateTaskURL exampleInstance"
    and key: "APIKey big = ''KEY''"
    and client: "HTTPClient big = Some Client"
    by (simp_all add: big_def exampleInstance_def)
  have run: "SolveCaptcha (mockDo (CreateTaskURL exampleInstance)) [] zeroResponse big
       \<lparr>net = ([Object (Some 0) (Some ''ERROR_NO_SLOT_AVAILABLE''),
                Object (Some 1) (Some ''abc123'')], []), trace = []\<rparr>
     = Some (Return ([], Some unmarshalError),
             \<lparr>net = ([], []),
              trace = [Get (CreateTaskURL exampleInstance), Sleep 2000000000,
                       Get (CreateTaskURL exampleInstance),
                       Get ''https://2captcha.com/res.php?json=1&key=KEY&action=get&id=abc123'']\<rparr>)"
    apply (simp add: SolveCaptcha_def client)
    apply (subst outerLoop_step)
    apply (subst createTaskLoop_step)
    apply (simp add: url tts checkError_no_slot)
    apply (subst createTaskLoop_step)
    apply (simp add: url key checkError_ok capResultURL_def)
    apply (subst solutionLoop_step)
    apply (simp add: exampleInstance_def)
    done
  show ?thesis
    using run by (simp add: big_def specPollSeconds_def specDigit_def)
qed

text \<open>
  Claim C5, amended: for every instance with a client whose \<^verbatim>\<open>timeBetweenReqs\<close> setting
  is the decimal numeral of \<open>n\<close> seconds, with \<open>n\<close> seconds in the range of a
  \<^verbatim>\<open>time.Duration\<close>, if the task-creation endpoint answers
  \<^verbatim>\<open>{"status":0,"request":"ERROR_NO_SLOT_AVAILABLE"}\<close> once and then
  \<^verbatim>\<open>{"status":1,"request":"abc123"}\<close>, \<^verbatim>\<open>SolveCaptcha\<close> sleeps \<open>n\<close> seconds, once, before
  it asks for the task again, and the URL it builds for the solution check is the result
  endpoint with the API key, \<^verbatim>\<open>action=get\<close> and the task id \<^verbatim>\<open>abc123\<close>. The first
  conjunct is the task-creation loop of the call; the second reads the sleep as a signed
  number of nanoseconds; the third says that the call goes on with the solution loop on
  that URL, from the world after these three events.
\<close>

theorem C5_no_slot_retry:
  assumes first: "httpDo (net w) (CreateTaskURL inst) =
                    (Object (Some 0) (Some ''ERROR_NO_SLOT_AVAILABLE''), n1)"
    and second: "httpDo n1 (CreateTaskURL inst) = (Object (Some 1) (Some ''abc123''), n2)"
    and client: "HTTPClient inst = Some c"
    and setting: "SettingInfo inst ''timeBetweenReqs'' = Some s"
    and seconds: "specPollSeconds s = Some n"
    and fits: "n * 1000000000 < 2 ^ 63"
  shows "createTaskLoop httpDo inst (timeToSleepOf inst) taskStruct w =
           Some (Inr (capResultURL @ ''&key='' @ APIKey inst @ ''&action=get&id=abc123'',
                      \<lparr>Status = 1, Response = ''abc123''\<rparr>),
                 \<lparr>net = n2,
                  trace = trace w @ [Get (CreateTaskURL inst),
                                     Sleep (word_of_int (int n * 1000000000)),
                                     Get (CreateTaskURL inst)]\<rparr>)
    \<and> sint (word_of_int (int n * 1000000000) :: 64 word) = int n * 1000000000
    \<and> SolveCaptcha httpDo errKey taskStruct inst w =
         (case solutionLoop httpDo errKey (word_of_int (int n * 1000000000))
                 \<lparr>Status = 1, Response = ''abc123''\<rparr>
                 (capResultURL @ ''&key='' @ APIKey inst @ ''&action=get&id=abc123'')
                 \<lparr>net = n2,
                  trace = trace w @ [Get (CreateTaskURL inst),
                                     Sleep (word_of_int (int n * 1000000000)),
                                     Get (CreateTaskURL inst)]\<rparr> of
            None \<Rightarrow> None
          | Some (Inl e, w'') \<Rightarrow> Some (Return ([], Some e), w'')
          | Some (Inr solution', w'') \<Rightarrow>
              map_option (\<lambda>(r, w'). (Return r, w'))
                (outerLoop httpDo errKey inst \<lparr>Status = 1, Response = ''abc123''\<rparr> solution' w''))"
proof -
  from setting seconds
  have sec: "specPollSeconds (mapIndex (SettingInfo inst) ''timeBetweenReqs'') = Some n"
    by (simp add: mapIndex_def)
  note tts = timeToSleepOf_spec [OF sec fits]
  have create: "createTaskLoop httpDo inst (timeToSleepOf inst) taskStruct w =
           Some (Inr (capResultURL @ ''&key='' @ APIKey inst @ ''&action=get&id=abc123'',
                      \<lparr>Status = 1, Response = ''abc123''\<rparr>),
                 \<lparr>net = n2,
                  trace = trace w @ [Get (CreateTaskURL inst), Sleep (timeToSleepOf inst),
                                     Get (CreateTaskURL inst)]\<rparr>)"
    apply (subst createTaskLoop_step)
    apply (simp add: first checkError_no_slot)
    apply (subst createTaskLoop_step)
    apply (simp add: second checkError_ok)
    done
  have "SolveCaptcha httpDo errKey taskStruct inst w =
          map_option (\<lambda>(r, w'). (Return r, w')) (outerLoop httpDo errKey inst taskStruct [] w)"
    by (simp add: SolveCaptcha_def client)
  also have "\<dots> = (case solutionLoop httpDo errKey (timeToSleepOf inst)
                 \<lparr>Status = 1, Response = ''abc123''\<rparr>
                 (capResultURL @ ''&key='' @ APIKey inst @ ''&action=get&id=abc123'')
                 \<lparr>net = n2,
                  trace = trace w @ [Get (CreateTaskURL inst), Sleep (timeToSleepOf inst),
                                     Get (CreateTaskURL inst)]\<rparr> of
            None \<Rightarrow> None
          | Some (Inl e, w'') \<Rightarrow> Some (Return ([], Some e), w'')
          | Some (Inr solution', w'') \<Rightarrow>
              map_option (\<lambda>(r, w'). (Return r, w'))
                (outerLoop httpDo errKey inst \<lparr>Status = 1, Response = ''abc123''\<rparr> solution' w''))"
    by (subst outerLoop_step) (simp add: create split: option.splits sum.splits prod.splits)
  finally have solve: "SolveCaptcha httpDo errKey taskStruct inst w =
         (case solutionLoop httpDo errKey (timeToSleepOf inst)
                 \<lparr>Status = 1, Response = ''abc123''\<rparr>
                 (capResultURL @ ''&key='' @ APIKey inst @ ''&action=get&id=abc123'')
                 \<lparr>net = n2,
                  trace = trace w @ [Get (CreateTaskURL inst), Sleep (timeToSleepOf inst),
                                     Get (CreateTaskURL inst)]\<rparr> of
            None \<Rightarrow> None
          | Some (Inl e, w'') \<Rightarrow> Some (Return ([], Some e), w'')
          | Some (Inr solution', w'') \<Rightarrow>
              map_option (\<lambda>(r, w'). (Return r, w'))
                (outerLoop httpDo errKey inst \<lparr>Status = 1, Response = ''abc123''\<rparr> solution' w''))" .
  from create solve tts(2) show ?thesis
    unfolding tts(1) by (intro conjI)
qed

text \<open>The claim at an interval of five seconds.\<close>

theorem C5_witness:
  "SettingInfo exampleInstance ''timeBetweenReqs'' = Some ''5''
   \<and> specPollSeconds ''5'' = Some 5
   \<and> createTaskLoop (mockDo (CreateTaskURL exampleInstance)) exampleInstance
       (timeToSleepOf exampleInstance) zeroResponse
       \<lparr>net = ([Object (Some 0) (Some ''ERROR_NO_SLOT_AVAILABLE''),
                Object (Some 1) (Some ''abc123'')], []), trace = []\<rparr>
     = Some (Inr (''https://2captcha.com/res.php?json=1&key=KEY&action=get&id=abc123'',
                  \<lparr>Status = 1, Response = ''abc123''\<rparr>),
             \<lparr>net = ([], []),
              trace = [Get (CreateTaskURL exampleInstance), Sleep 5000000000,
                       Get (CreateTaskURL exampleInstance)]\<rparr>)
   \<and> sint (5000000000 :: 64 word) = 5 * 1000000000
   \<and> SolveCaptcha (mockDo (CreateTaskURL exampleInstance)) [] zeroResponse exampleInstance
       \<lparr>net = ([Object (Some 0) (Some ''ERROR_NO_SLOT_AVAILABLE''),
                Object (Some 1) (Some ''abc123'')], []), trace = []\<rparr>
     = Some (Return ([], Some unmarshalError),
             \<lparr>net = ([], []),
              trace = [Get (CreateTaskURL exampleInstance), Sleep 5000000000,
                       Get (CreateTaskURL exampleInstance),
                       Get ''https://2captcha.com/res.php?json=1&key=KEY&action=get&id=abc123'']\<rparr>)"
proof -
  have first: "mockDo (CreateTaskURL exampleInstance)
       (net \<lparr>net = ([Object (Some 0) (Some ''ERROR_NO_SLOT_AVAILABLE''),
                Object (Some 1) (Some ''abc123'')], []), trace = []\<rparr>)
       (CreateTaskURL exampleInstance) =
     (Object (Some 0) (Some ''ERROR_NO_SLOT_AVAILABLE''), ([Object (Some 1) (Some ''abc123'')], []))"
    by simp
  have second: "mockDo (CreateTaskURL exampleInstance) ([Object (Some 1) (Some ''abc123'')], [])
       (CreateTaskURL exampleInstance) = (Object (Some 1) (Some ''abc123''), ([], []))"
    by simp
  have client: "HTTPClient exampleInstance = Some Client"
    by (simp add: exampleInstance_def)
  have setting: "SettingInfo exampleInstance ''timeBetweenReqs'' = Some ''5''"
    by (simp add: exampleInstance_def)
  have seconds: "specPollSeconds ''5'' = Some 5"
    by (simp add: specPollSeconds_def specDigit_def)
  have fits: "(5::nat) * 1000000000 < 2 ^ 63"
    by simp
  have poll: "solutionLoop (mockDo (CreateTaskURL exampleInstance)) [] 5000000000
        \<lparr>Status = 1, Response = ''abc123''\<rparr>
        ''https://2captcha.com/res.php?json=1&key=KEY&action=get&id=abc123''
        \<lparr>net = ([], []),
         trace = [Get (CreateTaskURL exampleInstance), Sleep 5000000000,
                  Get (CreateTaskURL exampleInstance)]\<rparr> =
      Some (Inl unmarshalError,
            \<lparr>net = ([], []),
             trace = [Get (CreateTaskURL exampleInstance), Sleep 5000000000,
                      Get (CreateTaskURL exampleInstance),
                      Get ''https://2captcha.com/res.php?json=1&key=KEY&action=get&id=abc123'']\<rparr>)"
    by (subst solutionLoop_step) (simp add: exampleInstance_def)
  have key: "APIKey exampleInstance = ''KEY''"
    by (simp add: exampleInstance_def)
  from C5_no_slot_retry [where httpDo = "mockDo (CreateTaskURL exampleInstance)"
         and inst = exampleInstance
         and w = "\<lparr>net = ([Object (Some 0) (Some ''ERROR_NO_SLOT_AVAILABLE''),
                Object (Some 1) (Some ''abc123'')], []), trace = []\<rparr>"
         and errKey = "[]" and taskStruct = zeroResponse,
         OF first second client setting seconds fits]
       setting seconds
  show ?thesis
    by (simp add: capResultURL_def key poll)
qed

text \<open>
  Claim C7. In each of the three phases (balance, task creation, solution polling), a
  response body that does not unmarshal makes the operation return the unmarshalling
  error at once: the one request is the last event of the call. For \<^verbatim>\<open>NewInstance\<close> the
  premises say that the checks let the call through to the balance request. For
  \<^verbatim>\<open>SolveCaptcha\<close> the statement is given for the loop at any of its turns
  (\<open>outerLoop\<close>, which returns the \<^verbatim>\<open>solution\<close> it holds) and for the call itself.
\<close>

theorem C7_unmarshal_failure_is_fatal:
  "(keyInMap settingParams ''timeBetweenReqs'' \<and> stringInSlice validTypes captchaType \<and>
    firstSwitch captchaType captchaParams = Inr fe0 \<and>
    fst (httpDo (net w) (capResultURL @ ''&action=getBalance&key='' @ apiKey)) = Malformed \<longrightarrow>
      NewInstance httpDo apiKey captchaType captchaParams settingParams w =
        Some ((zeroInstance, Some unmarshalError),
              \<lparr>net = snd (httpDo (net w) (capResultURL @ ''&action=getBalance&key='' @ apiKey)),
               trace = trace w @ [Get (capResultURL @ ''&action=getBalance&key='' @ apiKey)]\<rparr>))
   \<and> (fst (httpDo (net w) (CreateTaskURL inst)) = Malformed \<longrightarrow>
        outerLoop httpDo errKey inst taskStruct solution w =
          Some ((solution, Some unmarshalError),
                \<lparr>net = snd (httpDo (net w) (CreateTaskURL inst)),
                 trace = trace w @ [Get (CreateTaskURL inst)]\<rparr>))
   \<and> (createTaskLoop httpDo inst (timeToSleepOf inst) taskStruct w =
          Some (Inr (url, taskStruct'), w1) \<and>
        fst (httpDo (net w1) url) = Malformed \<longrightarrow>
        outerLoop httpDo errKey inst taskStruct solution w =
          Some ((solution, Some unmarshalError),
                \<lparr>net = snd (httpDo (net w1) url), trace = trace w1 @ [Get url]\<rparr>))
   \<and> (HTTPClient inst = Some c \<and> fst (httpDo (net w) (CreateTaskURL inst)) = Malformed \<longrightarrow>
        SolveCaptcha httpDo errKey taskStruct inst w =
          Some (Return ([], Some unmarshalError),
                \<lparr>net = snd (httpDo (net w) (CreateTaskURL inst)),
                 trace = trace w @ [Get (CreateTaskURL inst)]\<rparr>))
   \<and> (HTTPClient inst = Some c \<and>
        createTaskLoop httpDo inst (timeToSleepOf inst) taskStruct w =
          Some (Inr (url, taskStruct'), w1) \<and>
        fst (httpDo (net w1) url) = Malformed \<longrightarrow>
        SolveCaptcha httpDo errKey taskStruct inst w =
          Some (Return ([], Some unmarshalError),
                \<lparr>net = snd (httpDo (net w1) url), trace = trace w1 @ [Get url]\<rparr>))"
proof -
  have create: "outerLoop httpDo errKey inst taskStruct sol w =
          Some ((sol, Some unmarshalError),
                \<lparr>net = snd (httpDo (net w) (CreateTaskURL inst)),
                 trace = trace w @ [Get (CreateTaskURL inst)]\<rparr>)"
    if "fst (httpDo (net w) (CreateTaskURL inst)) = Malformed" for sol
    using that by (subst outerLoop_step) (simp add: createTaskLoop_malformed)
  have poll: "outerLoop httpDo errKey inst taskStruct sol w =
          Some ((sol, Some unmarshalError),
                \<lparr>net = snd (httpDo (net w1) url), trace = trace w1 @ [Get url]\<rparr>)"
    if "createTaskLoop httpDo inst (timeToSleepOf inst) taskStruct w =
          Some (Inr (url, taskStruct'), w1)"
      and "fst (httpDo (net w1) url) = Malformed" for sol
    using that by (subst outerLoop_step) (simp add: solutionLoop_malformed)
  show ?thesis
    by (auto simp: NewInstance_balance create poll SolveCaptcha_def)
qed

theorem C7_witness:
  "NewInstance (mockDo []) ''KEY'' ''recaptchaV2''
       [''sitekey'' \<mapsto> ''SITE'', ''siteurl'' \<mapsto> ''PAGE''] [''timeBetweenReqs'' \<mapsto> ''5'']
       \<lparr>net = ([], []), trace = []\<rparr>
     = Some ((zeroInstance, Some unmarshalError),
             \<lparr>net = ([], []),
              trace = [Get ''https://2captcha.com/res.php?json=1&action=getBalance&key=KEY'']\<rparr>)
   \<and> SolveCaptcha (mockDo (CreateTaskURL exampleInstance)) [] zeroResponse exampleInstance
        \<lparr>net = ([], []), trace = []\<rparr>
     = Some (Return ([], Some unmarshalError),
             \<lparr>net = ([], []), trace = [Get (CreateTaskURL exampleInstance)]\<rparr>)
   \<and> SolveCaptcha (mockDo (CreateTaskURL exampleInstance)) [] zeroResponse exampleInstance
        \<lparr>net = ([Object (Some 1) (Some ''abc123'')], []), trace = []\<rparr>
     = Some (Return ([], Some unmarshalError),
             \<lparr>net = ([], []),
              trace = [Get (CreateTaskURL exampleInstance),
                       Get ''https://2captcha.com/res.php?json=1&key=KEY&action=get&id=abc123'']\<rparr>)"
proof -
  have sw: "firstSwitch ''recaptchaV2'' [''sitekey'' \<mapsto> ''SITE'', ''siteurl'' \<mapsto> ''PAGE''] = Inr None"
    by (simp add: firstSwitch_def keyInMap_def)
  have create: "createTaskLoop (mockDo (CreateTaskURL exampleInstance)) exampleInstance
        (timeToSleepOf exampleInstance) zeroResponse
        \<lparr>net = ([Object (Some 1) (Some ''abc123'')], []), trace = []\<rparr> =
      Some (Inr (''https://2captcha.com/res.php?json=1&key=KEY&action=get&id=abc123'',
                 \<lparr>Status = 1, Response = ''abc123''\<rparr>),
            \<lparr>net = ([], []), trace = [Get (CreateTaskURL exampleInstance)]\<rparr>)"
    by (subst createTaskLoop_step)
       (simp add: checkError_ok capResultURL_def, simp add: exampleInstance_def)
  have client: "HTTPClient exampleInstance = Some Client"
    by (simp add: exampleInstance_def)
  have other: "''https://2captcha.com/res.php?json=1&key=KEY&action=get&id=abc123'' \<noteq>
      CreateTaskURL exampleInstance"
    by (simp add: exampleInstance_def)
  show ?thesis
    using
      C7_unmarshal_failure_is_fatal [where settingParams = "[''timeBetweenReqs'' \<mapsto> ''5'']" and captchaType = "''recaptchaV2''"
             and captchaParams = "[''sitekey'' \<mapsto> ''SITE'', ''siteurl'' \<mapsto> ''PAGE'']"
             and ?fe0.0 = None and httpDo = "mockDo []"
             and w = "\<lparr>net = ([], []), trace = []\<rparr>" and apiKey = "''KEY''"]
      C7_unmarshal_failure_is_fatal [where httpDo = "mockDo (CreateTaskURL exampleInstance)"
             and w = "\<lparr>net = ([], []), trace = []\<rparr>"
             and inst = exampleInstance and taskStruct = zeroResponse and c = Client
             and errKey = "[]"]
      C7_unmarshal_failure_is_fatal [where httpDo = "mockDo (CreateTaskURL exampleInstance)"
             and w = "\<lparr>net = ([Object (Some 1) (Some ''abc123'')], []), trace = []\<rparr>"
             and inst = exampleInstance and taskStruct = zeroResponse and c = Client
             and errKey = "[]"
             and url = "''https://2captcha.com/res.php?json=1&key=KEY&action=get&id=abc123''"
             and taskStruct' = "\<lparr>Status = 1, Response = ''abc123''\<rparr>"
             and ?w1.0 = "\<lparr>net = ([], []), trace = [Get (CreateTaskURL exampleInstance)]\<rparr>"]
    by (simp add: sw create client other keyInMap_def validTypes_def capResultURL_def)
qed


text \<open>
  Claim C9. For a parsed response with status 0 whose code is not a key of the
  catalogue, \<^verbatim>\<open>checkError\<close> returns no error, so the phase takes the response for a
  success and uses the code as its payload: the task-creation loop builds the solution
  URL with the code as task id, and the solution loop (entered, as always, with a
  \<^verbatim>\<open>taskStruct\<close> that passes the check) yields the code as the solution.
\<close>

theorem C9_unknown_code_passes:
  assumes "r \<notin> set (map fst captchaErrors)"
  shows "checkError \<lparr>Status = 0, Response = r\<rparr> = ([], None)
    \<and> (httpDo (net w) (CreateTaskURL inst) = (Object (Some 0) (Some r), n1) \<longrightarrow>
         createTaskLoop httpDo inst tts taskStruct w =
           Some (Inr (capResultURL @ ''&key='' @ APIKey inst @ ''&action=get&id='' @ r,
                      \<lparr>Status = 0, Response = r\<rparr>),
                 \<lparr>net = n1, trace = trace w @ [Get (CreateTaskURL inst)]\<rparr>))
    \<and> (snd (checkError taskStruct) = None \<and>
        httpDo (net w) url = (Object (Some 0) (Some r), n1) \<longrightarrow>
         solutionLoop httpDo errKey tts taskStruct url w =
           Some (Inr r, \<lparr>net = n1, trace = trace w @ [Get url]\<rparr>))"
proof -
  have ce: "checkError \<lparr>Status = 0, Response = r\<rparr> = ([], None)"
    using assms by (simp add: checkError_def rangeErrors_miss)
  show ?thesis
  proof (intro conjI impI)
    show "checkError \<lparr>Status = 0, Response = r\<rparr> = ([], None)" by (rule ce)
  next
    assume "httpDo (net w) (CreateTaskURL inst) = (Object (Some 0) (Some r), n1)"
    then show "createTaskLoop httpDo inst tts taskStruct w =
           Some (Inr (capResultURL @ ''&key='' @ APIKey inst @ ''&action=get&id='' @ r,
                      \<lparr>Status = 0, Response = r\<rparr>),
                 \<lparr>net = n1, trace = trace w @ [Get (CreateTaskURL inst)]\<rparr>)"
      by (subst createTaskLoop_step) (simp add: ce)
  next
    assume "snd (checkError taskStruct) = None \<and>
        httpDo (net w) url = (Object (Some 0) (Some r), n1)"
    then show "solutionLoop httpDo errKey tts taskStruct url w =
           Some (Inr r, \<lparr>net = n1, trace = trace w @ [Get url]\<rparr>)"
      by (subst solutionLoop_step) (simp add: zeroResponse_def)
  qed
qed

theorem C9_witness:
  "''ERROR_PAGEURL'' \<notin> set (map fst captchaErrors)
   \<and> checkError \<lparr>Status = 0, Response = ''ERROR_PAGEURL''\<rparr> = ([], None)
   \<and> createTaskLoop (mockDo (CreateTaskURL exampleInstance)) exampleInstance 5000000000 zeroResponse
        \<lparr>net = ([Object (Some 0) (Some ''ERROR_PAGEURL'')], []), trace = []\<rparr>
      = Some (Inr (''https://2captcha.com/res.php?json=1&key=KEY&action=get&id=ERROR_PAGEURL'',
                   \<lparr>Status = 0, Response = ''ERROR_PAGEURL''\<rparr>),
              \<lparr>net = ([], []), trace = [Get (CreateTaskURL exampleInstance)]\<rparr>)
   \<and> solutionLoop (mockDo (CreateTaskURL exampleInstance)) [] 5000000000
        \<lparr>Status = 1, Response = ''abc123''\<rparr>
        ''https://2captcha.com/res.php?json=1&key=KEY&action=get&id=abc123''
        \<lparr>net = ([], [Object (Some 0) (Some ''ERROR_PAGEURL'')]), trace = []\<rparr>
      = Some (Inr ''ERROR_PAGEURL'',
              \<lparr>net = ([], []),
               trace = [Get ''https://2captcha.com/res.php?json=1&key=KEY&action=get&id=abc123'']\<rparr>)"
proof -
  have miss: "''ERROR_PAGEURL'' \<notin> set (map fst captchaErrors)"
    by (simp add: captchaErrors_def)
  have key: "APIKey exampleInstance = ''KEY''"
    by (simp add: exampleInstance_def)
  have other: "''https://2captcha.com/res.php?json=1&key=KEY&action=get&id=abc123'' \<noteq>
      CreateTaskURL exampleInstance"
    by (simp add: exampleInstance_def)
  from C9_unknown_code_passes [OF miss, where httpDo = "mockDo (CreateTaskURL exampleInstance)"
         and inst = exampleInstance and tts = 5000000000 and taskStruct = zeroResponse
         and w = "\<lparr>net = ([Object (Some 0) (Some ''ERROR_PAGEURL'')], []), trace = []\<rparr>"
         and ?n1.0 = "([], [])"]
       C9_unknown_code_passes [OF miss, where httpDo = "mockDo (CreateTaskURL exampleInstance)"
         and tts = 5000000000 and taskStruct = "\<lparr>Status = 1, Response = ''abc123''\<rparr>"
         and url = "''https://2captcha.com/res.php?json=1&key=KEY&action=get&id=abc123''"
         and errKey = "[]"
         and w = "\<lparr>net = ([], [Object (Some 0) (Some ''ERROR_PAGEURL'')]), trace = []\<rparr>"
         and ?n1.0 = "([], [])"]
       miss
  show ?thesis
    by (simp add: key other capResultURL_def checkError_ok)
qed


text \<open>
  Claim C2. For every configured instance, if the solution polls are answered with
  \<^verbatim>\<open>CAPCHA_NOT_READY\<close> twice and then with \<^verbatim>\<open>SOLUTION_TOKEN\<close>, \<^verbatim>\<open>SolveCaptcha\<close> sleeps two
  poll intervals and returns the token with no error. The source does not do this: the
  solution loop checks \<^verbatim>\<open>taskStruct\<close>, not the response of the poll, so the first answer
  is taken as the solution without a sleep, and \<^verbatim>\<open>OuterLoop\<close> then starts over with a
  new task-creation request (which the mock below answers with an empty body). By
  \<open>SolveCaptcha_never_nil\<close> no call returns without an error.
\<close>

theorem C2_first_poll_is_taken_as_solution:
  "SolveCaptcha (mockDo (CreateTaskURL exampleInstance)) errKey taskStruct exampleInstance
     \<lparr>net = ([Object (Some 1) (Some ''abc123'')],
             [Object (Some 0) (Some ''CAPCHA_NOT_READY''), Object (Some 0) (Some ''CAPCHA_NOT_READY''),
              Object (Some 1) (Some ''SOLUTION_TOKEN'')]),
      trace = []\<rparr>
   = Some (Return (''CAPCHA_NOT_READY'', Some unmarshalError),
           \<lparr>net = ([], [Object (Some 0) (Some ''CAPCHA_NOT_READY''),
              Object (Some 1) (Some ''SOLUTION_TOKEN'')]),
            trace = [Get (CreateTaskURL exampleInstance),
                     Get ''https://2captcha.com/res.php?json=1&key=KEY&action=get&id=abc123'',
                     Get (CreateTaskURL exampleInstance)]\<rparr>)"
  apply (simp add: SolveCaptcha_def)
  apply (simp add: exampleInstance_def)
  apply (subst outerLoop_step)
  apply (subst createTaskLoop_step)
  apply (simp add: checkError_ok)
  apply (subst solutionLoop_step)
  apply (simp add: checkError_ok capResultURL_def zeroResponse_def)
  apply (subst outerLoop_step)
  apply (subst createTaskLoop_step)
  apply simp
  done


text \<open>
  Claim C3. For every configured instance, if the solution endpoint answers
  \<^verbatim>\<open>{"status":0,"request":"ERROR_WRONG_ID_FORMAT"}\<close>, \<^verbatim>\<open>SolveCaptcha\<close> returns at once
  with the error of the catalogue for that code and sends no further request. The source
  does not do this, for the reason given at C2: the code is taken as the solution, and a
  third request is sent.
\<close>

theorem C3_wrong_id_is_not_fatal:
  "SolveCaptcha (mockDo (CreateTaskURL exampleInstance)) errKey taskStruct exampleInstance
     \<lparr>net = ([Object (Some 1) (Some ''abc123'')],
             [Object (Some 0) (Some ''ERROR_WRONG_ID_FORMAT'')]),
      trace = []\<rparr>
   = Some (Return (''ERROR_WRONG_ID_FORMAT'', Some unmarshalError),
           \<lparr>net = ([], []),
            trace = [Get (CreateTaskURL exampleInstance),
                     Get ''https://2captcha.com/res.php?json=1&key=KEY&action=get&id=abc123'',
                     Get (CreateTaskURL exampleInstance)]\<rparr>)"
  apply (simp add: SolveCaptcha_def)
  apply (simp add: exampleInstance_def)
  apply (subst outerLoop_step)
  apply (subst createTaskLoop_step)
  apply (simp add: checkError_ok)
  apply (subst solutionLoop_step)
  apply (simp add: checkError_ok capResultURL_def zeroResponse_def)
  apply (subst outerLoop_step)
  apply (subst createTaskLoop_step)
  apply simp
  done


end
